theory Spec2Isabelle
  imports Complex_Main
begin

section \<open>Python values and exceptions\<close>

text \<open>
  The exceptions the modelled functions can raise.  A function that can raise returns
  \<open>error + 'a\<close>, with \<open>Inl\<close> the exception.
\<close>

datatype error =
    KeyError
  | IndexError
  | AttributeError
  | TypeError
  | UnboundLocalError
  | ZeroDivisionError
  | DuplicateNameError
  | IndexOutOfRange

text \<open>Sequencing of computations that may raise: the first exception wins.\<close>

definition ebind :: "error + 'a \<Rightarrow> ('a \<Rightarrow> error + 'b) \<Rightarrow> error + 'b" where
  "ebind r f = (case r of Inl e \<Rightarrow> Inl e | Inr v \<Rightarrow> f v)"

text \<open>\<open>d[k]\<close> on a dictionary: \<open>KeyError\<close> when the key is absent.\<close>

definition getitem :: "('k \<rightharpoonup> 'v) \<Rightarrow> 'k \<Rightarrow> error + 'v" where
  "getitem d k = (case d k of None \<Rightarrow> Inl KeyError | Some v \<Rightarrow> Inr v)"

text \<open>\<open>xs[i]\<close> on a list with a non-negative index: \<open>IndexError\<close> out of range.\<close>

definition list_getitem :: "'a list \<Rightarrow> nat \<Rightarrow> error + 'a" where
  "list_getitem xs i = (if i < length xs then Inr (xs ! i) else Inl IndexError)"



text \<open>
  Python values that are stored in dictionaries and object attributes.  A dictionary value
  is an association list in the order of the source's literal; looking a key up finds its
  first entry.
\<close>

datatype pyval =
    NoneV
  | BoolV bool
  | IntV int
  | FloatV real
  | StrV string
  | ListV "pyval list"
  | DictV "(string \<times> pyval) list"

type_synonym dict = "(string \<times> pyval) list"

definition dict_getitem :: "dict \<Rightarrow> string \<Rightarrow> error + pyval" where
  "dict_getitem d k = (case map_of d k of None \<Rightarrow> Inl KeyError | Some v \<Rightarrow> Inr v)"

text \<open>\<open>v[k]\<close> with a string key on an arbitrary value: only a dictionary accepts it.\<close>

fun subscript :: "pyval \<Rightarrow> string \<Rightarrow> error + pyval" where
  "subscript (DictV d) k = dict_getitem d k"
| "subscript v k = Inl TypeError"

text \<open>
  The items a \<open>for\<close> loop or \<open>zip\<close> draws from a value: the elements of a list, the
  keys of a dictionary, the characters of a string; other values are not iterable.
\<close>

fun iterate :: "pyval \<Rightarrow> error + pyval list" where
  "iterate (ListV xs) = Inr xs"
| "iterate (DictV d) = Inr (map (\<lambda>kv. StrV (fst kv)) d)"
| "iterate (StrV s) = Inr (map (\<lambda>c. StrV [c]) s)"
| "iterate v = Inl TypeError"

text \<open>A list comprehension or loop whose body may raise: the first exception ends it.\<close>

fun emap :: "('a \<Rightarrow> error + 'b) \<Rightarrow> 'a list \<Rightarrow> error + 'b list" where
  "emap f [] = Inr []"
| "emap f (x # xs) = ebind (f x) (\<lambda>y. ebind (emap f xs) (\<lambda>ys. Inr (y # ys)))"

text \<open>
  The slice \<open>xs[start:]\<close>: a negative \<open>start\<close> counts from the end, and both ends are
  clipped to the list.
\<close>

definition slice_from :: "int \<Rightarrow> 'a list \<Rightarrow> 'a list" where
  "slice_from start xs =
     (let n = int (length xs);
          s = (if start < 0 then max 0 (n + start) else min start n)
      in drop (nat s) xs)"


section \<open>\<open>hyperspy/misc/eds/utils.py\<close>\<close>

text \<open>
  \<open>elements_db\<close> is imported from \<open>hyperspy.misc.eds.elements\<close>; it is a parameter
  here: a dictionary from element symbols to dictionaries of numeric properties
  (\<open>density\<close>, \<open>Z\<close>, \<open>A\<close>).  The properties and the compositions are floats, so that
  \<open>/\<close> is the true division.
\<close>

type_synonym elements_db = "string \<rightharpoonup> (string \<rightharpoonup> real)"

text \<open>\<open>elements_db[element][prop]\<close>\<close>

definition db_getitem :: "elements_db \<Rightarrow> string \<Rightarrow> string \<Rightarrow> error + real" where
  "db_getitem db element prop = ebind (getitem db element) (\<lambda>props. getitem props prop)"

subsection \<open>\<open>electron_range\<close>\<close>

text \<open>
  The local variables \<open>Z\<close> and \<open>A\<close> of \<open>electron_range\<close> are assigned only in the
  \<open>rho is None\<close> branch: they are options here, \<open>None\<close> for a local that is not bound.
  The argument \<open>rho\<close> is \<open>None\<close> for Python's \<open>None\<close>.
\<close>

text \<open>Reading a local variable: \<open>UnboundLocalError\<close> when it has not been assigned.\<close>

definition read_local :: "'a option \<Rightarrow> error + 'a" where
  "read_local v = (case v of None \<Rightarrow> Inl UnboundLocalError | Some x \<Rightarrow> Inr x)"

text \<open>
  The return expression
  \<open>0.0276*A/np.power(Z,0.89)/rho*np.power(beam_energy,1.67)*math.cos(math.radians(tilt))\<close>,
  evaluated left to right: \<open>A\<close> is read first, then \<open>Z\<close>, then \<open>rho\<close>.  Dividing by a numpy
  scalar does not raise.
\<close>

definition electron_range_return ::
  "real option \<Rightarrow> real option \<Rightarrow> real option \<Rightarrow> real \<Rightarrow> real \<Rightarrow> error + real" where
  "electron_range_return A Z rho beam_energy tilt =
     ebind (read_local A) (\<lambda>a.
     ebind (read_local Z) (\<lambda>z.
     ebind (read_local rho) (\<lambda>r.
       Inr (0.0276 * a / (z powr 0.89) / r * (beam_energy powr 1.67)
              * cos (tilt * pi / 180)))))"

definition electron_range ::
  "elements_db \<Rightarrow> string \<Rightarrow> real \<Rightarrow> real option \<Rightarrow> real \<Rightarrow> error + real" where
  "electron_range db element beam_energy rho tilt =
     (case rho of
        None \<Rightarrow>
          ebind (db_getitem db element ''density'') (\<lambda>rho'.
          ebind (db_getitem db element ''Z'') (\<lambda>Z.
          ebind (db_getitem db element ''A'') (\<lambda>A.
            electron_range_return (Some A) (Some Z) (Some rho') beam_energy tilt)))
      | Some r \<Rightarrow> electron_range_return None None (Some r) beam_energy tilt)"

subsection \<open>\<open>atomic_to_weight\<close> and \<open>weigth_to_atomic\<close>\<close>







text \<open>A small element table for concrete evaluations.\<close>

definition example_db :: elements_db where
  "example_db =
     [''Al'' \<mapsto> [''density'' \<mapsto> 2.7, ''Z'' \<mapsto> 13, ''A'' \<mapsto> 27],
      ''Zn'' \<mapsto> [''density'' \<mapsto> 7.14, ''Z'' \<mapsto> 30, ''A'' \<mapsto> 65]]"




section \<open>\<open>hyperspy/io_plugins/netcdf.py\<close>\<close>

subsection \<open>The file as the reader sees it\<close>

text \<open>
  An array is its shape and its elements by multi-index; \<open>data.T\<close> reverses the order of
  the dimensions.
\<close>

record ndarray =
  shape :: "nat list"
  elems :: "nat list \<Rightarrow> real"

definition transpose_nd :: "ndarray \<Rightarrow> ndarray" where
  "transpose_nd a = \<lparr>shape = rev (shape a), elems = (\<lambda>idx. elems a (rev idx))\<rparr>"

text \<open>
  An attribute of a netCDF variable is a scalar or a one-dimensional numpy array.
\<close>

datatype ncattr = Scalar pyval | NdArray "pyval list"

record variable =
  var_data :: ndarray
  var_attrs :: "string \<rightharpoonup> ncattr"

text \<open>\<open>nc_type\<close> is the file's global attribute \<open>type\<close>, \<open>None\<close> when the file has none.\<close>

record ncfile =
  variables :: "string \<rightharpoonup> variable"
  nc_type :: "pyval option"

subsection \<open>The attribute tables\<close>

definition attrib2netcdf :: "(string \<times> string) list" where
  "attrib2netcdf =
     [(''energyorigin'', ''energy_origin''),
      (''energyscale'', ''energy_scale''),
      (''energyunits'', ''energy_units''),
      (''xorigin'', ''x_origin''),
      (''xscale'', ''x_scale''),
      (''xunits'', ''x_units''),
      (''yorigin'', ''y_origin''),
      (''yscale'', ''y_scale''),
      (''yunits'', ''y_units''),
      (''zorigin'', ''z_origin''),
      (''zscale'', ''z_scale''),
      (''zunits'', ''z_units''),
      (''exposure'', ''exposure''),
      (''title'', ''title''),
      (''binning'', ''binning''),
      (''readout_frequency'', ''readout_frequency''),
      (''ccd_height'', ''ccd_height''),
      (''blanking'', ''blanking'')]"

definition acquisition2netcdf :: "(string \<times> string) list" where
  "acquisition2netcdf =
     [(''exposure'', ''exposure''),
      (''binning'', ''binning''),
      (''readout_frequency'', ''readout_frequency''),
      (''ccd_height'', ''ccd_height''),
      (''blanking'', ''blanking''),
      (''gain'', ''gain''),
      (''pppc'', ''pppc'')]"

definition treatments2netcdf :: "(string \<times> string) list" where
  "treatments2netcdf =
     [(''dark_current'', ''dark_current''),
      (''readout'', ''readout'')]"

subsection \<open>\<open>nc_hyperspy_reader_0dot1\<close>\<close>

text \<open>
  The loops over \<open>attrib2netcdf.items()\<close> and \<open>acquisition2netcdf.items()\<close>: an attribute
  the variable has is stored under the table's key, an array by its first element; an
  attribute it lacks only prints a warning.
\<close>

fun read_attributes ::
  "(string \<times> string) list \<Rightarrow> (string \<rightharpoonup> ncattr) \<Rightarrow> (string \<rightharpoonup> pyval)
     \<Rightarrow> error + (string \<rightharpoonup> pyval)" where
  "read_attributes [] attrs d = Inr d"
| "read_attributes (attrib # rest) attrs d =
     (case attrs (snd attrib) of
        None \<Rightarrow> read_attributes rest attrs d
      | Some (Scalar v) \<Rightarrow> read_attributes rest attrs (d(fst attrib \<mapsto> v))
      | Some (NdArray vs) \<Rightarrow>
          ebind (list_getitem vs 0) (\<lambda>v. read_attributes rest attrs (d(fst attrib \<mapsto> v))))"

text \<open>The loop over \<open>treatments2netcdf.items()\<close> stores the attribute as it is.\<close>

fun read_treatments ::
  "(string \<times> string) list \<Rightarrow> (string \<rightharpoonup> ncattr) \<Rightarrow> (string \<rightharpoonup> ncattr)
     \<Rightarrow> (string \<rightharpoonup> ncattr)" where
  "read_treatments [] attrs d = d"
| "read_treatments (attrib # rest) attrs d =
     (case attrs (snd attrib) of
        None \<Rightarrow> read_treatments rest attrs d
      | Some v \<Rightarrow> read_treatments rest attrs (d(fst attrib \<mapsto> v)))"

record original_parameters =
  op_record_by :: pyval
  calibration :: "string \<rightharpoonup> pyval"
  acquisition :: "string \<rightharpoonup> pyval"
  treatments :: "string \<rightharpoonup> ncattr"

text \<open>The dictionary the reader returns, one field per key.\<close>

record dictionary =
  data :: ndarray
  axes :: "dict list"
  mapped_parameters :: dict
  original_parameters :: original_parameters

text \<open>\<open>'image' if original_parameters['record_by'] == 'Image' else 'spectrum'\<close>\<close>

definition record_by_of :: "pyval \<Rightarrow> string" where
  "record_by_of t = (if t = StrV ''Image'' then ''image'' else ''spectrum'')"

definition names_of :: "string \<Rightarrow> string list" where
  "names_of record_by =
     (if record_by = ''image'' then [''Z'', ''Y'', ''X''] else [''Y'', ''X'', ''Energy''])"

definition scaleskeys :: "string \<Rightarrow> string list" where
  "scaleskeys record_by =
     (if record_by = ''image'' then [''zscale'', ''yscale'', ''xscale'']
      else [''yscale'', ''xscale'', ''energyscale''])"

definition originskeys :: "string \<Rightarrow> string list" where
  "originskeys record_by =
     (if record_by = ''image'' then [''zorigin'', ''yorigin'', ''xorigin'']
      else [''yorigin'', ''xorigin'', ''energyorigin''])"

definition unitskeys :: "string \<Rightarrow> string list" where
  "unitskeys record_by =
     (if record_by = ''image'' then [''zunits'', ''yunits'', ''xunits'']
      else [''yunits'', ''xunits'', ''energyunits''])"

text \<open>
  \<open>try: xs = [calibration_dict[key] for key in keys] except KeyError: xs = fallback\<close>
\<close>

definition lookup_or_default ::
  "(string \<rightharpoonup> pyval) \<Rightarrow> string list \<Rightarrow> pyval list \<Rightarrow> error + pyval list" where
  "lookup_or_default calibration_dict keys fallback =
     (case emap (getitem calibration_dict) keys of
        Inl KeyError \<Rightarrow> Inr fallback
      | Inl e \<Rightarrow> Inl e
      | Inr xs \<Rightarrow> Inr xs)"

text \<open>One element of the \<open>axes\<close> comprehension; the items are evaluated in this order.\<close>

definition axis_entry ::
  "ndarray \<Rightarrow> string list \<Rightarrow> pyval list \<Rightarrow> pyval list \<Rightarrow> pyval list \<Rightarrow> nat
     \<Rightarrow> error + dict" where
  "axis_entry data_T names scales origins units i =
     ebind (list_getitem (shape data_T) i) (\<lambda>n.
     ebind (list_getitem names i) (\<lambda>nm.
     ebind (list_getitem scales i) (\<lambda>sc.
     ebind (list_getitem origins i) (\<lambda>origin.
     ebind (list_getitem units i) (\<lambda>un.
       Inr [(''size'', IntV (int n)),
            (''index_in_array'', IntV (int i)),
            (''name'', StrV nm),
            (''scale'', sc),
            (''offset'', origin),
            (''units'', un)])))))"

text \<open>\<open>os.path.split(filename)[1]\<close>: what follows the last slash.\<close>

definition basename :: "string \<Rightarrow> string" where
  "basename filename = rev (takeWhile (\<lambda>c. c \<noteq> CHR ''/'') (rev filename))"

text \<open>
  The test \<open>'history' in calibration_dict\<close> at the top of the function is made on the
  dictionary that was just created empty, so its branch never runs and is left out.
\<close>

definition nc_hyperspy_reader_0dot1 :: "ncfile \<Rightarrow> string \<Rightarrow> error + dictionary" where
  "nc_hyperspy_reader_0dot1 ncfile filename =
     ebind (getitem (variables ncfile) ''data_cube'') (\<lambda>dc.
     ebind (read_attributes attrib2netcdf (var_attrs dc) Map.empty) (\<lambda>calibration_dict.
     ebind (read_attributes acquisition2netcdf (var_attrs dc) Map.empty) (\<lambda>acquisition_dict.
     ebind (case nc_type ncfile of None \<Rightarrow> Inl AttributeError | Some t \<Rightarrow> Inr t) (\<lambda>t.
       let treatments_dict = read_treatments treatments2netcdf (var_attrs dc) Map.empty;
           original = \<lparr>op_record_by = t, calibration = calibration_dict,
                        acquisition = acquisition_dict, treatments = treatments_dict\<rparr>;
           record_by = record_by_of (op_record_by original);
           dim = length (shape (var_data dc));
           names = slice_from (3 - int dim) (names_of record_by);
           data_T = transpose_nd (var_data dc)
       in
         ebind (lookup_or_default calibration_dict
                  (slice_from (3 - int dim) (scaleskeys record_by))
                  (slice_from (3 - int dim) [IntV 1, IntV 1, IntV 1])) (\<lambda>scales.
         ebind (lookup_or_default calibration_dict
                  (slice_from (3 - int dim) (originskeys record_by))
                  (slice_from (3 - int dim) [IntV 0, IntV 0, IntV 0])) (\<lambda>origins.
         ebind (lookup_or_default calibration_dict
                  (slice_from (3 - int dim) (unitskeys record_by))
                  [StrV [], StrV [], StrV []]) (\<lambda>units.
         ebind (emap (axis_entry data_T names scales origins units) [0..<dim]) (\<lambda>axes_list.
           Inr \<lparr>data = data_T,
                axes = axes_list,
                mapped_parameters =
                  [(''original_filename'', StrV (basename filename)),
                   (''record_by'', StrV record_by),
                   (''signal_type'', StrV [])],
                original_parameters = original\<rparr>))))))))"

text \<open>A two-dimensional spectrum file with a calibrated energy axis only.\<close>

definition example_ncfile :: ncfile where
  "example_ncfile =
     \<lparr>variables =
        [''data_cube'' \<mapsto>
           \<lparr>var_data = \<lparr>shape = [5, 7], elems = (\<lambda>idx. 0)\<rparr>,
            var_attrs =
              [''energy_scale'' \<mapsto> NdArray [FloatV 0.5],
               ''energy_origin'' \<mapsto> Scalar (FloatV 100),
               ''energy_units'' \<mapsto> Scalar (StrV ''eV'')]\<rparr>],
      nc_type = Some (StrV ''Spectrum'')\<rparr>"


section \<open>Calibrated axes\<close>

text \<open>
  An axis object with the six attributes the specification lists.  The types of the
  calibration values and of the labels are parameters: the specification's axis has real
  \<open>scale\<close> and \<open>offset\<close>, while \<open>create_model_from_dict\<close> stores whatever values its
  dictionary holds.  The fields \<open>size\<close> and \<open>name\<close> carry the suffix \<open>_axis\<close>.
\<close>

record ('n, 'u) axis =
  size_axis :: nat
  index_in_array :: nat
  name_axis :: 'u
  scale :: 'n
  offset :: 'n
  units :: 'u


text \<open>
  Modelled from the spec: \<open>index_at(value) -> int\<close> is the inverse mapping, rounds to the
  nearest valid index and clamps to \<open>[0, size-1]\<close>; it never fails.  The inverse of
  \<open>offset + i*scale\<close> divides by \<open>scale\<close>; for \<open>scale = 0\<close> there is no inverse and the
  specification names no result, so no theorem below depends on the quotient at zero.
  The specification fixes no rule for ties either; \<open>round\<close> rounds a half upwards.
\<close>

definition index_at :: "(real, 'u) axis \<Rightarrow> real \<Rightarrow> int" where
  "index_at ax v =
     max 0 (min (int (size_axis ax) - 1) (round ((v - offset ax) / scale ax)))"

text \<open>
  Modelled from the spec: the axis's minimum and maximum physical value, the least and
  the greatest of the values \<open>offset + i*scale\<close> at the indices \<open>0 \<le> i < size\<close>
  (\<open>size \<ge> 1\<close> is the specification's invariant, so index \<open>0\<close> is among them).
\<close>

definition axis_values :: "(real, 'u) axis \<Rightarrow> real list" where
  "axis_values ax = map (\<lambda>i. offset ax + real i * scale ax) [0..<size_axis ax]"

definition axis_min :: "(real, 'u) axis \<Rightarrow> real" where
  "axis_min ax = fold min (axis_values ax) (offset ax)"

definition axis_max :: "(real, 'u) axis \<Rightarrow> real" where
  "axis_max ax = fold max (axis_values ax) (offset ax)"

text \<open>
  The energy axis of \<open>TestAlignTools.setUp\<close> (100 channels, scale 0.1, offset -2), an axis
  whose values descend, and an axis of scale zero.
\<close>

definition test_axis :: "(real, string) axis" where
  "test_axis = \<lparr>size_axis = 100, index_in_array = 1, name_axis = ''Energy'',
                 scale = 0.1, offset = -2, units = ''eV''\<rparr>"

definition descending_axis :: "(real, string) axis" where
  "descending_axis = \<lparr>size_axis = 3, index_in_array = 0, name_axis = ''x'',
                       scale = -1, offset = 0, units = ''nm''\<rparr>"



section \<open>\<open>hyperspy/hspy.py\<close>\<close>

subsection \<open>Objects\<close>

text \<open>
  A signal object: the names of its class and of the classes that one derives from, its
  data, and its axes.  The axis objects live in \<open>axes_store\<close>; \<open>navigation_axes\<close> and
  \<open>signal_axes\<close> are the lists of references (positions in the store) that
  \<open>axes_manager.navigation_axes\<close> and \<open>axes_manager.signal_axes\<close> return, so that two
  references may name the same axis object.
\<close>

record signal =
  class_mro :: "string list"
  signal_data :: pyval
  axes_store :: "(pyval, pyval) axis list"
  navigation_axes :: "nat list"
  signal_axes :: "nat list"

definition isinstance :: "signal \<Rightarrow> string \<Rightarrow> bool" where
  "isinstance obj cls = (cls \<in> set (class_mro obj))"

record component =
  name :: pyval
  active :: bool
  id_name :: string

datatype model_class = ModelC | EELSModelC

record model =
  model_class :: model_class
  spectrum :: signal
  components :: "component list"

text \<open>
  The classes that \<open>hspy.py\<close> imports are not among the sources.  What their constructors
  and methods do is a parameter of the model: the signal that \<open>EELSSpectrum(...)\<close> or
  \<open>Spectrum(...)\<close> builds from its dictionary, the signal after
  \<open>set_microscope_parameters\<close>, the components a new \<open>EELSModel\<close> or \<open>Model\<close> starts with,
  and the component classes of the module \<open>components\<close> by name.  Each may raise.
\<close>

record env =
  EELSSpectrum_init :: "dict \<Rightarrow> error + signal"
  Spectrum_init :: "dict \<Rightarrow> error + signal"
  set_microscope_parameters :: "signal \<Rightarrow> pyval \<Rightarrow> pyval \<Rightarrow> pyval \<Rightarrow> error + signal"
  EELSModel_init :: "signal \<Rightarrow> pyval list \<Rightarrow> dict \<Rightarrow> error + component list"
  Model_init :: "signal \<Rightarrow> pyval list \<Rightarrow> dict \<Rightarrow> error + component list"
  components_module :: "string \<rightharpoonup> (pyval list \<Rightarrow> dict \<Rightarrow> error + component)"

text \<open>
  \<open>EELSModel(signal, *args, **kwargs)\<close> and \<open>Model(signal, *args, **kwargs)\<close>: an object
  of the class is created and initialised with the arguments of the call.
\<close>

definition EELSModel :: "env \<Rightarrow> signal \<Rightarrow> pyval list \<Rightarrow> dict \<Rightarrow> error + model" where
  "EELSModel env signal args kwargs =
     ebind (EELSModel_init env signal args kwargs) (\<lambda>cs.
       Inr \<lparr>model_class = EELSModelC, spectrum = signal, components = cs\<rparr>)"

definition Model :: "env \<Rightarrow> signal \<Rightarrow> pyval list \<Rightarrow> dict \<Rightarrow> error + model" where
  "Model env signal args kwargs =
     ebind (Model_init env signal args kwargs) (\<lambda>cs.
       Inr \<lparr>model_class = ModelC, spectrum = signal, components = cs\<rparr>)"

subsection \<open>\<open>create_model\<close>\<close>

definition create_model :: "env \<Rightarrow> signal \<Rightarrow> pyval list \<Rightarrow> dict \<Rightarrow> error + model" where
  "create_model env signal args kwargs =
     (if isinstance signal ''EELSSpectrum'' then EELSModel env signal args kwargs
      else Model env signal args kwargs)"

subsection \<open>\<open>create_model_from_dict\<close>\<close>

text \<open>The two class names the dictionary is compared with.\<close>

definition EELSSpectrum_repr :: string where
  "EELSSpectrum_repr =
     ''<class '' @ [CHR 0x27] @ ''hyperspy.signals.eels.EELSSpectrum'' @ [CHR 0x27] @ ''>''"

definition EELSModel_repr :: string where
  "EELSModel_repr =
     ''<class '' @ [CHR 0x27] @ ''hyperspy.models.eelsmodel.EELSModel'' @ [CHR 0x27] @ ''>''"

text \<open>
  Lines 89 to 96: the spectrum is rebuilt from the stored data.  The local variable
  \<open>spectrum\<close> of the source is \<open>s\<close> here and below.
\<close>

definition build_spectrum :: "env \<Rightarrow> dict \<Rightarrow> error + signal" where
  "build_spectrum env model_dict =
     ebind (dict_getitem model_dict ''spectrum_type'') (\<lambda>spectrum_type.
       if spectrum_type = StrV EELSSpectrum_repr then
         ebind (dict_getitem model_dict ''spectrum'') (\<lambda>d.
         ebind (EELSSpectrum_init env [(''data'', d)]) (\<lambda>s.
         ebind (dict_getitem model_dict ''spectrum_mapped_parameters'') (\<lambda>mp1.
         ebind (subscript mp1 ''TEM'') (\<lambda>tem1.
         ebind (subscript tem1 ''beam_energy'') (\<lambda>beam_energy.
         ebind (dict_getitem model_dict ''spectrum_mapped_parameters'') (\<lambda>mp2.
         ebind (subscript mp2 ''TEM'') (\<lambda>tem2.
         ebind (subscript tem2 ''convergence_angle'') (\<lambda>convergence_angle.
         ebind (dict_getitem model_dict ''spectrum_mapped_parameters'') (\<lambda>mp3.
         ebind (subscript mp3 ''TEM'') (\<lambda>tem3.
         ebind (subscript tem3 ''EELS'') (\<lambda>eels.
         ebind (subscript eels ''collection_angle'') (\<lambda>collection_angle.
           set_microscope_parameters env s
             beam_energy convergence_angle collection_angle))))))))))))
       else
         ebind (dict_getitem model_dict ''spectrum'') (\<lambda>d.
           Spectrum_init env [(''data'', d)]))"

text \<open>
  The body of the two calibration loops, for the axis object at reference \<open>r\<close> and the
  dictionary entry \<open>e\<close>: three assignments, each after the lookup of its value.
\<close>

definition set_axis_calibration ::
  "(pyval, pyval) axis list \<Rightarrow> nat \<Rightarrow> pyval \<Rightarrow> error + (pyval, pyval) axis list" where
  "set_axis_calibration store r e =
     ebind (subscript e ''scale'') (\<lambda>v1.
       let store1 = store[r := (store ! r)\<lparr>scale := v1\<rparr>] in
     ebind (subscript e ''offset'') (\<lambda>v2.
       let store2 = store1[r := (store1 ! r)\<lparr>offset := v2\<rparr>] in
     ebind (subscript e ''units'') (\<lambda>v3.
       Inr (store2[r := (store2 ! r)\<lparr>units := v3\<rparr>]))))"

text \<open>
  \<open>for s_axis, axis in zip(s_axes, entries)\<close>: the loop ends with the shorter of the two
  lists.
\<close>

fun set_calibration ::
  "(pyval, pyval) axis list \<Rightarrow> nat list \<Rightarrow> pyval list \<Rightarrow> error + (pyval, pyval) axis list" where
  "set_calibration store (r # rs) (e # es) =
     ebind (set_axis_calibration store r e) (\<lambda>store'. set_calibration store' rs es)"
| "set_calibration store rs es = Inr store"

text \<open>Lines 99 to 111: the navigation axes, then the signal axes.\<close>

definition restore_calibration :: "signal \<Rightarrow> dict \<Rightarrow> error + signal" where
  "restore_calibration s model_dict =
     ebind (dict_getitem model_dict ''navigation_axes'') (\<lambda>nav.
     ebind (iterate nav) (\<lambda>nav_entries.
     ebind (set_calibration (axes_store s) (navigation_axes s) nav_entries) (\<lambda>store1.
     ebind (dict_getitem model_dict ''signal_axes'') (\<lambda>sg.
     ebind (iterate sg) (\<lambda>sig_entries.
     ebind (set_calibration store1 (signal_axes s) sig_entries) (\<lambda>store2.
       Inr (s\<lparr>axes_store := store2\<rparr>)))))))"

text \<open>\<open>model.pop()\<close>: the model is a list of components, and the last one is removed.\<close>

definition pop :: "model \<Rightarrow> error + model" where
  "pop m =
     (if components m = [] then Inl IndexError
      else Inr (m\<lparr>components := butlast (components m)\<rparr>))"

text \<open>
  Modelled from the spec: the class \<open>Model\<close> and its \<open>append\<close> are not among the sources.
  The specification says that \<open>append(component)\<close> adds the component at the end of the
  ordered sequence and fails with \<open>DuplicateNameError\<close> if the name collides with an
  existing active component.
\<close>

definition append_model :: "model \<Rightarrow> component \<Rightarrow> error + model" where
  "append_model m c =
     (if name c \<in> set (map name (filter active (components m))) then Inl DuplicateNameError
      else Inr (m\<lparr>components := components m @ [c]\<rparr>))"

text \<open>Lines 113 to 117.\<close>

definition build_model :: "env \<Rightarrow> signal \<Rightarrow> dict \<Rightarrow> error + model" where
  "build_model env s model_dict =
     ebind (dict_getitem model_dict ''model_type'') (\<lambda>model_type.
       if model_type = StrV EELSModel_repr then
         ebind (EELSModel env s [] []) pop
       else Model env s [] [])"

text \<open>\<open>getattr(components, id)\<close>: the attribute name has to be a string.\<close>

definition getattr_components ::
  "env \<Rightarrow> pyval \<Rightarrow> error + (pyval list \<Rightarrow> dict \<Rightarrow> error + component)" where
  "getattr_components env idn =
     (case idn of
        StrV s \<Rightarrow> (case components_module env s of
                     None \<Rightarrow> Inl AttributeError
                   | Some comp_object \<Rightarrow> Inr comp_object)
      | _ \<Rightarrow> Inl TypeError)"

text \<open>\<open>a + b\<close> where one operand is a string: the other has to be a string too.\<close>

definition str_add :: "pyval \<Rightarrow> pyval \<Rightarrow> error + pyval" where
  "str_add a b =
     (case (a, b) of (StrV s, StrV t) \<Rightarrow> Inr (StrV (s @ t)) | _ \<Rightarrow> Inl TypeError)"

text \<open>Lines 120 to 128: one component is built from its entry and named.\<close>

definition make_component :: "env \<Rightarrow> pyval \<Rightarrow> error + component" where
  "make_component env entry =
     ebind (subscript entry ''_id_name'') (\<lambda>idn.
     ebind (getattr_components env idn) (\<lambda>comp_object.
     ebind (subscript entry ''_id_name'') (\<lambda>idn'.
       if idn' = StrV ''EELSCLEdge'' then
         ebind (subscript entry ''element'') (\<lambda>element.
         ebind (str_add element (StrV ''_'')) (\<lambda>prefix.
         ebind (subscript entry ''subshell'') (\<lambda>subshell.
         ebind (str_add prefix subshell) (\<lambda>arg.
         ebind (subscript entry ''GOS'') (\<lambda>gos.
         ebind (comp_object [arg] [(''GOS'', gos)]) (\<lambda>component.
         ebind (subscript entry ''name'') (\<lambda>n.
           Inr (component\<lparr>name := n\<rparr>))))))))
       else
         ebind (comp_object [] []) (\<lambda>component.
         ebind (subscript entry ''name'') (\<lambda>n.
           Inr (component\<lparr>name := n\<rparr>))))))"

text \<open>The loop of lines 119 to 129 over the entries of \<open>model_dict['components']\<close>.\<close>

fun append_components :: "env \<Rightarrow> model \<Rightarrow> pyval list \<Rightarrow> error + model" where
  "append_components env m [] = Inr m"
| "append_components env m (entry # rest) =
     ebind (make_component env entry) (\<lambda>component.
     ebind (append_model m component) (\<lambda>m'.
       append_components env m' rest))"

text \<open>The model before the loop over the components: lines 89 to 117.\<close>

definition base_model :: "env \<Rightarrow> dict \<Rightarrow> error + model" where
  "base_model env model_dict =
     ebind (build_spectrum env model_dict) (\<lambda>s.
     ebind (restore_calibration s model_dict) (\<lambda>s'.
       build_model env s' model_dict))"

definition component_entries :: "dict \<Rightarrow> error + pyval list" where
  "component_entries model_dict = ebind (dict_getitem model_dict ''components'') iterate"

definition create_model_from_dict :: "env \<Rightarrow> dict \<Rightarrow> error + model" where
  "create_model_from_dict env model_dict =
     ebind (base_model env model_dict) (\<lambda>m.
     ebind (component_entries model_dict) (\<lambda>entries.
       append_components env m entries))"


subsection \<open>Objects for concrete evaluations\<close>

definition example_axes :: "(pyval, pyval) axis list" where
  "example_axes =
     [\<lparr>size_axis = 10, index_in_array = 0, name_axis = StrV ''x'',
       scale = FloatV 1, offset = FloatV 0, units = StrV ''''\<rparr>,
      \<lparr>size_axis = 100, index_in_array = 1, name_axis = StrV ''Energy'',
       scale = FloatV 1, offset = FloatV 0, units = StrV ''''\<rparr>]"

definition example_spectrum :: signal where
  "example_spectrum =
     \<lparr>class_mro = [''Spectrum'', ''Signal'', ''object''], signal_data = ListV [],
      axes_store = example_axes, navigation_axes = [0], signal_axes = [1]\<rparr>"

definition example_eels :: signal where
  "example_eels =
     \<lparr>class_mro = [''EELSSpectrum'', ''Spectrum'', ''Signal'', ''object''],
      signal_data = ListV [],
      axes_store = example_axes, navigation_axes = [0], signal_axes = [1]\<rparr>"

definition new_component :: "string \<Rightarrow> pyval list \<Rightarrow> dict \<Rightarrow> error + component" where
  "new_component cls args kwargs = Inr \<lparr>name = StrV cls, active = True, id_name = cls\<rparr>"

definition example_env :: env where
  "example_env =
     \<lparr>EELSSpectrum_init = (\<lambda>d. Inr example_eels),
      Spectrum_init = (\<lambda>d. Inr example_spectrum),
      set_microscope_parameters = (\<lambda>s a b c. Inr s),
      EELSModel_init = (\<lambda>s args kwargs.
         Inr [\<lparr>name = StrV ''background'', active = True, id_name = ''PowerLaw''\<rparr>]),
      Model_init = (\<lambda>s args kwargs. Inr []),
      components_module =
        [''PowerLaw'' \<mapsto> new_component ''PowerLaw'',
         ''Gaussian'' \<mapsto> new_component ''Gaussian'',
         ''EELSCLEdge'' \<mapsto> new_component ''EELSCLEdge'']\<rparr>"

definition example_nav_entry :: pyval where
  "example_nav_entry =
     DictV [(''scale'', FloatV 2), (''offset'', FloatV 5), (''units'', StrV ''nm'')]"

definition example_sig_entry :: pyval where
  "example_sig_entry =
     DictV [(''scale'', FloatV 0.1), (''offset'', FloatV (-2)), (''units'', StrV ''eV'')]"

definition example_component_entries :: "pyval list" where
  "example_component_entries =
     [DictV [(''_id_name'', StrV ''PowerLaw''), (''name'', StrV ''bg'')],
      DictV [(''_id_name'', StrV ''EELSCLEdge''), (''name'', StrV ''C_K''),
             (''element'', StrV ''C''), (''subshell'', StrV ''K''),
             (''GOS'', StrV ''hydrogenic'')],
      DictV [(''_id_name'', StrV ''Gaussian''), (''name'', StrV ''peak'')]]"

definition example_model_dict :: dict where
  "example_model_dict =
     [(''spectrum_type'', StrV EELSSpectrum_repr),
      (''spectrum'', ListV []),
      (''spectrum_mapped_parameters'',
         DictV [(''TEM'',
           DictV [(''beam_energy'', FloatV 100),
                  (''convergence_angle'', FloatV 10),
                  (''EELS'', DictV [(''collection_angle'', FloatV 20)])])]),
      (''navigation_axes'', ListV [example_nav_entry]),
      (''signal_axes'', ListV [example_sig_entry]),
      (''model_type'', StrV EELSModel_repr),
      (''components'', ListV example_component_entries)]"


section \<open>Multi-position fitting\<close>

text \<open>
  Modelled from the spec: the fitting engine (\<open>Model.multifit\<close>, the optimizer) is not
  among the sources.  The specification describes an optimizer that returns a best-fit
  parameter vector with a convergence flag, reports \<open>MaxIterationsExceeded\<close> and
  \<open>SingularJacobian\<close> as non-convergence and fails fast on \<open>InvalidInitialGuess\<close>; the
  optimizer itself is a parameter here, a function from the initial guess and the data of
  one coordinate to one of these outcomes.  The vector of a non-converged outcome is the
  last valid estimate.
\<close>

datatype optimizer_outcome =
    Converged_within_tolerance "real list"
  | MaxIterationsExceeded "real list"
  | SingularJacobian "real list"
  | InvalidInitialGuess

datatype fit_status = NotFit | Fitting | Converged | Failed

record FitState =
  parameter_values :: "real list"
  converged :: bool
  chisq :: real

text \<open>
  Modelled from the spec: the transitions \<open>Fitting -> Converged\<close> when the optimizer
  reports convergence and \<open>Fitting -> Failed\<close> when it reports non-convergence or a fatal
  input error, the last valid parameter values being retained; with a fatal input error
  these are the values the fit started from.  \<open>chisq\<close> is derived from the retained values
  by the parameter \<open>chi\<close>.
\<close>

definition fit_coordinate ::
  "(real list \<Rightarrow> 'd \<Rightarrow> optimizer_outcome) \<Rightarrow> (real list \<Rightarrow> 'd \<Rightarrow> real) \<Rightarrow> real list \<Rightarrow> 'd
     \<Rightarrow> FitState" where
  "fit_coordinate optimizer chi guess d =
     (case optimizer guess d of
        Converged_within_tolerance p \<Rightarrow>
          \<lparr>parameter_values = p, converged = True, chisq = chi p d\<rparr>
      | MaxIterationsExceeded p \<Rightarrow>
          \<lparr>parameter_values = p, converged = False, chisq = chi p d\<rparr>
      | SingularJacobian p \<Rightarrow>
          \<lparr>parameter_values = p, converged = False, chisq = chi p d\<rparr>
      | InvalidInitialGuess \<Rightarrow>
          \<lparr>parameter_values = guess, converged = False, chisq = chi guess d\<rparr>)"

definition status_of :: "FitState \<Rightarrow> fit_status" where
  "status_of st = (if converged st then Converged else Failed)"

text \<open>
  Modelled from the spec: \<open>multifit\<close> iterates all navigation coordinates in the declared
  order and returns the per-coordinate records.  The initial guess of a coordinate is
  copied from the record of the previous coordinate visited (hot start), unless the
  caller asks for a reset to the defaults; the first coordinate starts from the defaults.
\<close>

fun multifit_from ::
  "(real list \<Rightarrow> 'd \<Rightarrow> optimizer_outcome) \<Rightarrow> (real list \<Rightarrow> 'd \<Rightarrow> real) \<Rightarrow> bool \<Rightarrow> real list
     \<Rightarrow> real list \<Rightarrow> 'd list \<Rightarrow> FitState list" where
  "multifit_from optimizer chi reset defaults guess [] = []"
| "multifit_from optimizer chi reset defaults guess (d # ds) =
     (let st = fit_coordinate optimizer chi guess d
      in st # multifit_from optimizer chi reset defaults
                (if reset then defaults else parameter_values st) ds)"

definition multifit ::
  "(real list \<Rightarrow> 'd \<Rightarrow> optimizer_outcome) \<Rightarrow> (real list \<Rightarrow> 'd \<Rightarrow> real) \<Rightarrow> bool \<Rightarrow> real list
     \<Rightarrow> 'd list \<Rightarrow> FitState list" where
  "multifit optimizer chi reset defaults ds =
     multifit_from optimizer chi reset defaults defaults ds"

text \<open>
  An optimizer for concrete evaluations, on data that are single numbers: it fails with
  a singular Jacobian on the datum \<open>0\<close> and otherwise converges to the datum.
\<close>

definition example_optimizer :: "real list \<Rightarrow> real \<Rightarrow> optimizer_outcome" where
  "example_optimizer guess d =
     (if d = 0 then SingularJacobian guess else Converged_within_tolerance [d])"

definition example_chi :: "real list \<Rightarrow> real \<Rightarrow> real" where
  "example_chi p d = (case p of [] \<Rightarrow> d * d | x # _ \<Rightarrow> (x - d) * (x - d))"


section \<open>Proofs: sequencing and loops\<close>

lemma ebind_Inr [simp]: "ebind (Inr v) f = f v"
  by (simp add: ebind_def)

lemma ebind_Inl [simp]: "ebind (Inl e) f = Inl e"
  by (simp add: ebind_def)

lemma ebind_eq_Inr:
  "ebind r f = Inr y \<longleftrightarrow> (\<exists>v. r = Inr v \<and> f v = Inr y)"
  by (cases r) simp_all

lemma emap_Inr:
  "emap f xs = Inr ys \<Longrightarrow> length ys = length xs \<and> (\<forall>i < length xs. f (xs ! i) = Inr (ys ! i))"
proof (induction xs arbitrary: ys)
  case Nil
  then show ?case by simp
next
  case (Cons x xs)
  from Cons.prems obtain y ys' where y: "f x = Inr y" and ys': "emap f xs = Inr ys'"
    and eq: "ys = y # ys'"
    by (auto simp: ebind_eq_Inr)
  from Cons.IH[OF ys'] have ih: "length ys' = length xs" "\<forall>i < length xs. f (xs ! i) = Inr (ys' ! i)"
    by simp_all
  show ?case
  proof (intro conjI allI impI)
    show "length ys = length (x # xs)" using eq ih by simp
  next
    fix i assume "i < length (x # xs)"
    then show "f ((x # xs) ! i) = Inr (ys ! i)"
      using y eq ih by (cases i) simp_all
  qed
qed

section \<open>Proofs: \<open>create_model\<close>\<close>

lemma EELSModel_class: "EELSModel env sg args kwargs = Inr m \<Longrightarrow> model_class m = EELSModelC"
  by (auto simp: EELSModel_def ebind_eq_Inr)

lemma Model_class: "Model env sg args kwargs = Inr m \<Longrightarrow> model_class m = ModelC"
  by (auto simp: Model_def ebind_eq_Inr)

lemma example_create_model:
  "create_model example_env example_eels [IntV 1] [(''GOS'', StrV ''hydrogenic'')]
     = Inr \<lparr>model_class = EELSModelC, spectrum = example_eels,
            components = [\<lparr>name = StrV ''background'', active = True, id_name = ''PowerLaw''\<rparr>]\<rparr>"
  "create_model example_env example_spectrum [] []
     = Inr \<lparr>model_class = ModelC, spectrum = example_spectrum, components = []\<rparr>"
  "isinstance example_eels ''EELSSpectrum''"
  "\<not> isinstance example_spectrum ''EELSSpectrum''"
  by (simp_all add: create_model_def isinstance_def example_eels_def example_spectrum_def
      EELSModel_def Model_def example_env_def)

text \<open>
  Claim C1.  For every signal passed to \<open>create_model\<close>, the call is the call of the
  \<open>EELSModel\<close> constructor when the signal is an instance of \<open>EELSSpectrum\<close> and the call
  of the \<open>Model\<close> constructor otherwise, with the signal, the positional and the keyword
  arguments passed on as they are; so a model that is returned is an \<open>EELSModel\<close> exactly
  when the signal is an instance of \<open>EELSSpectrum\<close>, and a generic \<open>Model\<close> exactly when it
  is not.
\<close>

theorem create_model_dispatch:
  "create_model env sg args kwargs
     = (if isinstance sg ''EELSSpectrum'' then EELSModel env sg args kwargs
        else Model env sg args kwargs)
   \<and> (\<forall>m. create_model env sg args kwargs = Inr m \<longrightarrow>
          (model_class m = EELSModelC \<longleftrightarrow> isinstance sg ''EELSSpectrum'')
        \<and> (model_class m = ModelC \<longleftrightarrow> \<not> isinstance sg ''EELSSpectrum''))"
  by (auto simp: create_model_def dest: EELSModel_class Model_class)

theorem create_model_dispatch_witness:
  "(\<exists>m. create_model example_env example_eels [IntV 1] [(''GOS'', StrV ''hydrogenic'')] = Inr m
        \<and> model_class m = EELSModelC \<and> isinstance example_eels ''EELSSpectrum'')
   \<and> (\<exists>m. create_model example_env example_spectrum [] [] = Inr m
        \<and> model_class m = ModelC \<and> \<not> isinstance example_spectrum ''EELSSpectrum'')"
proof -
  from create_model_dispatch [of example_env example_eels "[IntV 1]"
      "[(''GOS'', StrV ''hydrogenic'')]"] example_create_model(1,3)
  have a: "\<exists>m. create_model example_env example_eels [IntV 1] [(''GOS'', StrV ''hydrogenic'')] = Inr m
        \<and> model_class m = EELSModelC \<and> isinstance example_eels ''EELSSpectrum''"
    by blast
  from create_model_dispatch [of example_env example_spectrum "[]" "[]"] example_create_model(2,4)
  have b: "\<exists>m. create_model example_env example_spectrum [] [] = Inr m
        \<and> model_class m = ModelC \<and> \<not> isinstance example_spectrum ''EELSSpectrum''"
    by blast
  from a b show ?thesis by (rule conjI)
qed

section \<open>Proofs: \<open>create_model_from_dict\<close>\<close>

lemma set_axis_calibration_Inr:
  assumes "set_axis_calibration store r e = Inr store'"
  shows "\<exists>v1 v2 v3. subscript e ''scale'' = Inr v1 \<and> subscript e ''offset'' = Inr v2
           \<and> subscript e ''units'' = Inr v3
           \<and> store' = store[r := (store ! r)\<lparr>scale := v1, offset := v2, units := v3\<rparr>]"
proof (cases "r < length store")
  case True
  with assms show ?thesis
    unfolding set_axis_calibration_def Let_def by (auto simp: ebind_eq_Inr)
next
  case False
  with assms show ?thesis
    unfolding set_axis_calibration_def Let_def by (auto simp: ebind_eq_Inr list_update_beyond)
qed

lemma set_axis_calibration_frame:
  assumes "set_axis_calibration store r e = Inr store'"
  shows "map (\<lambda>a. (size_axis a, name_axis a, index_in_array a)) store'
           = map (\<lambda>a. (size_axis a, name_axis a, index_in_array a)) store"
proof -
  from set_axis_calibration_Inr[OF assms] obtain v1 v2 v3 where
    s: "store' = store[r := (store ! r)\<lparr>scale := v1, offset := v2, units := v3\<rparr>]" by blast
  show ?thesis
  proof (cases "r < length store")
    case True
    then show ?thesis unfolding s by (simp add: map_update list_update_same_conv)
  next
    case False
    then show ?thesis unfolding s by (simp add: list_update_beyond)
  qed
qed

lemma set_calibration_frame:
  "set_calibration store rs es = Inr store' \<Longrightarrow>
   map (\<lambda>a. (size_axis a, name_axis a, index_in_array a)) store'
     = map (\<lambda>a. (size_axis a, name_axis a, index_in_array a)) store"
proof (induction store rs es arbitrary: store' rule: set_calibration.induct)
  case (1 store r rs e es)
  from "1.prems" obtain s1 where s1: "set_axis_calibration store r e = Inr s1"
    and rest: "set_calibration s1 rs es = Inr store'"
    by (auto simp: ebind_eq_Inr)
  from "1.IH"[OF rest] set_axis_calibration_frame[OF s1] show ?case by simp
qed simp_all

lemma set_calibration_values:
  "set_calibration store rs es = Inr store' \<Longrightarrow> distinct rs \<Longrightarrow>
   \<forall>r \<in> set rs. r < length store \<Longrightarrow>
     length store' = length store
   \<and> (\<forall>k. k \<notin> set rs \<longrightarrow> store' ! k = store ! k)
   \<and> (\<forall>i. i < length rs \<and> i < length es \<longrightarrow>
          subscript (es ! i) ''scale'' = Inr (scale (store' ! (rs ! i)))
        \<and> subscript (es ! i) ''offset'' = Inr (offset (store' ! (rs ! i)))
        \<and> subscript (es ! i) ''units'' = Inr (units (store' ! (rs ! i))))"
proof (induction store rs es arbitrary: store' rule: set_calibration.induct)
  case (1 store r rs e es)
  from "1.prems"(1) obtain s1 where s1: "set_axis_calibration store r e = Inr s1"
    and rest: "set_calibration s1 rs es = Inr store'"
    by (auto simp: ebind_eq_Inr)
  from set_axis_calibration_Inr[OF s1] obtain v1 v2 v3 where
    v: "subscript e ''scale'' = Inr v1" "subscript e ''offset'' = Inr v2"
       "subscript e ''units'' = Inr v3"
    and s1eq: "s1 = store[r := (store ! r)\<lparr>scale := v1, offset := v2, units := v3\<rparr>]"
    by blast
  have len1: "length s1 = length store" using s1eq by simp
  have d: "distinct rs" and rn: "r \<notin> set rs" using "1.prems"(2) by simp_all
  have b: "\<forall>x \<in> set rs. x < length s1" using "1.prems"(3) len1 by simp
  from "1.IH"[OF rest d b]
  have ih: "length store' = length s1"
    "\<forall>k. k \<notin> set rs \<longrightarrow> store' ! k = s1 ! k"
    "\<forall>i. i < length rs \<and> i < length es \<longrightarrow>
          subscript (es ! i) ''scale'' = Inr (scale (store' ! (rs ! i)))
        \<and> subscript (es ! i) ''offset'' = Inr (offset (store' ! (rs ! i)))
        \<and> subscript (es ! i) ''units'' = Inr (units (store' ! (rs ! i)))"
    by simp_all
  have r: "r < length store" using "1.prems"(3) by simp
  have head: "store' ! r = (store ! r)\<lparr>scale := v1, offset := v2, units := v3\<rparr>"
    using ih(2) rn s1eq r by simp
  show ?case
  proof (intro conjI allI impI)
    show "length store' = length store" using ih(1) len1 by simp
  next
    fix k assume "k \<notin> set (r # rs)"
    then show "store' ! k = store ! k" using ih(2) s1eq by simp
  next
    fix i assume i: "i < length (r # rs) \<and> i < length (e # es)"
    show "subscript ((e # es) ! i) ''scale'' = Inr (scale (store' ! ((r # rs) ! i)))"
      using i ih(3) head v by (cases i) simp_all
    show "subscript ((e # es) ! i) ''offset'' = Inr (offset (store' ! ((r # rs) ! i)))"
      using i ih(3) head v by (cases i) simp_all
    show "subscript ((e # es) ! i) ''units'' = Inr (units (store' ! ((r # rs) ! i)))"
      using i ih(3) head v by (cases i) simp_all
  qed
qed simp_all

lemma example_restore_calibration:
  "restore_calibration example_eels example_model_dict
     = Inr (example_eels\<lparr>axes_store :=
         [\<lparr>size_axis = 10, index_in_array = 0, name_axis = StrV ''x'',
           scale = FloatV 2, offset = FloatV 5, units = StrV ''nm''\<rparr>,
          \<lparr>size_axis = 100, index_in_array = 1, name_axis = StrV ''Energy'',
           scale = FloatV 0.1, offset = FloatV (-2), units = StrV ''eV''\<rparr>]\<rparr>)"
  by (simp add: restore_calibration_def example_model_dict_def dict_getitem_def
      example_eels_def example_axes_def example_nav_entry_def example_sig_entry_def
      set_axis_calibration_def)

text \<open>
  Claim C6.  When \<open>create_model_from_dict\<close> restores the calibration, the attributes
  \<open>size\<close>, \<open>name\<close> and \<open>index_in_array\<close> of every axis object stay as they were and the
  lists of navigation and signal axes stay the same.  When no axis object is referenced
  twice, each navigation and each signal axis that has an entry in the dictionary has
  the \<open>scale\<close>, \<open>offset\<close> and \<open>units\<close> of its entry afterwards, and an axis object that is
  neither a navigation nor a signal axis is not changed at all.
\<close>

theorem restore_calibration_frame:
  assumes "restore_calibration s model_dict = Inr s'"
  shows "map (\<lambda>a. (size_axis a, name_axis a, index_in_array a)) (axes_store s')
           = map (\<lambda>a. (size_axis a, name_axis a, index_in_array a)) (axes_store s)
       \<and> navigation_axes s' = navigation_axes s \<and> signal_axes s' = signal_axes s
       \<and> (distinct (navigation_axes s @ signal_axes s)
            \<and> (\<forall>r \<in> set (navigation_axes s @ signal_axes s). r < length (axes_store s))
          \<longrightarrow> (\<exists>nav_entries sig_entries.
                 ebind (dict_getitem model_dict ''navigation_axes'') iterate = Inr nav_entries
               \<and> ebind (dict_getitem model_dict ''signal_axes'') iterate = Inr sig_entries
               \<and> (\<forall>i. i < length (navigation_axes s) \<and> i < length nav_entries \<longrightarrow>
                      subscript (nav_entries ! i) ''scale''
                        = Inr (scale (axes_store s' ! (navigation_axes s ! i)))
                    \<and> subscript (nav_entries ! i) ''offset''
                        = Inr (offset (axes_store s' ! (navigation_axes s ! i)))
                    \<and> subscript (nav_entries ! i) ''units''
                        = Inr (units (axes_store s' ! (navigation_axes s ! i))))
               \<and> (\<forall>i. i < length (signal_axes s) \<and> i < length sig_entries \<longrightarrow>
                      subscript (sig_entries ! i) ''scale''
                        = Inr (scale (axes_store s' ! (signal_axes s ! i)))
                    \<and> subscript (sig_entries ! i) ''offset''
                        = Inr (offset (axes_store s' ! (signal_axes s ! i)))
                    \<and> subscript (sig_entries ! i) ''units''
                        = Inr (units (axes_store s' ! (signal_axes s ! i))))
               \<and> (\<forall>k. k \<notin> set (navigation_axes s) \<and> k \<notin> set (signal_axes s) \<longrightarrow>
                      axes_store s' ! k = axes_store s ! k)))"
proof -
  from assms obtain nav nav_entries store1 sg sig_entries store2 where
    nav: "dict_getitem model_dict ''navigation_axes'' = Inr nav"
      "iterate nav = Inr nav_entries"
    and p1: "set_calibration (axes_store s) (navigation_axes s) nav_entries = Inr store1"
    and sg: "dict_getitem model_dict ''signal_axes'' = Inr sg"
      "iterate sg = Inr sig_entries"
    and p2: "set_calibration store1 (signal_axes s) sig_entries = Inr store2"
    and s': "s' = s\<lparr>axes_store := store2\<rparr>"
    unfolding restore_calibration_def by (auto simp: ebind_eq_Inr)
  have frame: "map (\<lambda>a. (size_axis a, name_axis a, index_in_array a)) (axes_store s')
           = map (\<lambda>a. (size_axis a, name_axis a, index_in_array a)) (axes_store s)"
    using set_calibration_frame[OF p1] set_calibration_frame[OF p2] s' by simp
  have refs: "navigation_axes s' = navigation_axes s" "signal_axes s' = signal_axes s"
    using s' by simp_all
  have vals: "\<exists>nav_entries sig_entries.
                 ebind (dict_getitem model_dict ''navigation_axes'') iterate = Inr nav_entries
               \<and> ebind (dict_getitem model_dict ''signal_axes'') iterate = Inr sig_entries
               \<and> (\<forall>i. i < length (navigation_axes s) \<and> i < length nav_entries \<longrightarrow>
                      subscript (nav_entries ! i) ''scale''
                        = Inr (scale (axes_store s' ! (navigation_axes s ! i)))
                    \<and> subscript (nav_entries ! i) ''offset''
                        = Inr (offset (axes_store s' ! (navigation_axes s ! i)))
                    \<and> subscript (nav_entries ! i) ''units''
                        = Inr (units (axes_store s' ! (navigation_axes s ! i))))
               \<and> (\<forall>i. i < length (signal_axes s) \<and> i < length sig_entries \<longrightarrow>
                      subscript (sig_entries ! i) ''scale''
                        = Inr (scale (axes_store s' ! (signal_axes s ! i)))
                    \<and> subscript (sig_entries ! i) ''offset''
                        = Inr (offset (axes_store s' ! (signal_axes s ! i)))
                    \<and> subscript (sig_entries ! i) ''units''
                        = Inr (units (axes_store s' ! (signal_axes s ! i))))
               \<and> (\<forall>k. k \<notin> set (navigation_axes s) \<and> k \<notin> set (signal_axes s) \<longrightarrow>
                      axes_store s' ! k = axes_store s ! k)"
    if dist: "distinct (navigation_axes s @ signal_axes s)"
      and bound: "\<forall>r \<in> set (navigation_axes s @ signal_axes s). r < length (axes_store s)"
  proof -
    have dn: "distinct (navigation_axes s)" and ds: "distinct (signal_axes s)"
      and disj: "set (navigation_axes s) \<inter> set (signal_axes s) = {}"
      using dist by simp_all
    have bn: "\<forall>r \<in> set (navigation_axes s). r < length (axes_store s)"
      using bound by simp
    from set_calibration_values[OF p1 dn bn]
    have n1: "length store1 = length (axes_store s)"
      and n2: "\<forall>k. k \<notin> set (navigation_axes s) \<longrightarrow> store1 ! k = axes_store s ! k"
      and n3: "\<forall>i. i < length (navigation_axes s) \<and> i < length nav_entries \<longrightarrow>
          subscript (nav_entries ! i) ''scale'' = Inr (scale (store1 ! (navigation_axes s ! i)))
        \<and> subscript (nav_entries ! i) ''offset'' = Inr (offset (store1 ! (navigation_axes s ! i)))
        \<and> subscript (nav_entries ! i) ''units'' = Inr (units (store1 ! (navigation_axes s ! i)))"
      by simp_all
    have bs: "\<forall>r \<in> set (signal_axes s). r < length store1"
      using bound n1 by simp
    from set_calibration_values[OF p2 ds bs]
    have g2: "\<forall>k. k \<notin> set (signal_axes s) \<longrightarrow> store2 ! k = store1 ! k"
      and g3: "\<forall>i. i < length (signal_axes s) \<and> i < length sig_entries \<longrightarrow>
          subscript (sig_entries ! i) ''scale'' = Inr (scale (store2 ! (signal_axes s ! i)))
        \<and> subscript (sig_entries ! i) ''offset'' = Inr (offset (store2 ! (signal_axes s ! i)))
        \<and> subscript (sig_entries ! i) ''units'' = Inr (units (store2 ! (signal_axes s ! i)))"
      by simp_all
    have st: "axes_store s' = store2" using s' by simp
    have keep: "store2 ! (navigation_axes s ! i) = store1 ! (navigation_axes s ! i)"
      if "i < length (navigation_axes s)" for i
    proof -
      have "navigation_axes s ! i \<in> set (navigation_axes s)" using that by simp
      then have "navigation_axes s ! i \<notin> set (signal_axes s)" using disj by blast
      then show ?thesis using g2 by simp
    qed
    have e1: "ebind (dict_getitem model_dict ''navigation_axes'') iterate = Inr nav_entries"
      using nav by simp
    have e2: "ebind (dict_getitem model_dict ''signal_axes'') iterate = Inr sig_entries"
      using sg by simp
    have a: "\<forall>i. i < length (navigation_axes s) \<and> i < length nav_entries \<longrightarrow>
                      subscript (nav_entries ! i) ''scale''
                        = Inr (scale (axes_store s' ! (navigation_axes s ! i)))
                    \<and> subscript (nav_entries ! i) ''offset''
                        = Inr (offset (axes_store s' ! (navigation_axes s ! i)))
                    \<and> subscript (nav_entries ! i) ''units''
                        = Inr (units (axes_store s' ! (navigation_axes s ! i)))"
      using n3 keep st by simp
    have b: "\<forall>i. i < length (signal_axes s) \<and> i < length sig_entries \<longrightarrow>
                      subscript (sig_entries ! i) ''scale''
                        = Inr (scale (axes_store s' ! (signal_axes s ! i)))
                    \<and> subscript (sig_entries ! i) ''offset''
                        = Inr (offset (axes_store s' ! (signal_axes s ! i)))
                    \<and> subscript (sig_entries ! i) ''units''
                        = Inr (units (axes_store s' ! (signal_axes s ! i)))"
      using g3 st by simp
    have c: "\<forall>k. k \<notin> set (navigation_axes s) \<and> k \<notin> set (signal_axes s) \<longrightarrow>
                      axes_store s' ! k = axes_store s ! k"
      using n2 g2 st by simp
    from e1 e2 a b c show ?thesis by blast
  qed
  from frame refs vals show ?thesis by blast
qed

theorem restore_calibration_frame_witness:
  "\<exists>s'. restore_calibration example_eels example_model_dict = Inr s'
     \<and> map (\<lambda>a. (size_axis a, name_axis a, index_in_array a)) (axes_store s')
         = [(10, StrV ''x'', 0), (100, StrV ''Energy'', 1)]
     \<and> distinct (navigation_axes example_eels @ signal_axes example_eels)
     \<and> map scale (axes_store s') = [FloatV 2, FloatV 0.1]
     \<and> map offset (axes_store s') = [FloatV 5, FloatV (-2)]
     \<and> map units (axes_store s') = [StrV ''nm'', StrV ''eV'']"
proof -
  let ?s = "example_eels\<lparr>axes_store :=
         [\<lparr>size_axis = 10, index_in_array = 0, name_axis = StrV ''x'',
           scale = FloatV 2, offset = FloatV 5, units = StrV ''nm''\<rparr>,
          \<lparr>size_axis = 100, index_in_array = 1, name_axis = StrV ''Energy'',
           scale = FloatV 0.1, offset = FloatV (-2), units = StrV ''eV''\<rparr>]\<rparr>"
  from restore_calibration_frame[OF example_restore_calibration]
  have "map (\<lambda>a. (size_axis a, name_axis a, index_in_array a)) (axes_store ?s)
          = map (\<lambda>a. (size_axis a, name_axis a, index_in_array a)) (axes_store example_eels)"
    by (rule conjunct1)
  then have "map (\<lambda>a. (size_axis a, name_axis a, index_in_array a)) (axes_store ?s)
         = [(10, StrV ''x'', 0), (100, StrV ''Energy'', 1)]"
    by (simp add: example_eels_def example_axes_def)
  moreover have "distinct (navigation_axes example_eels @ signal_axes example_eels)"
    by (simp add: example_eels_def)
  ultimately show ?thesis using example_restore_calibration by simp
qed

lemma make_component_name:
  assumes "make_component env entry = Inr c"
  shows "subscript entry ''name'' = Inr (name c)"
  using assms unfolding make_component_def
  by (auto simp: ebind_eq_Inr split: if_splits)

lemma append_model_Inr:
  assumes "append_model m c = Inr m'"
  shows "components m' = components m @ [c]"
  using assms by (auto simp: append_model_def split: if_splits)

lemma append_components_Inr:
  "append_components env m entries = Inr m' \<Longrightarrow>
   \<exists>cs. components m' = components m @ cs
      \<and> emap (\<lambda>e. subscript e ''name'') entries = Inr (map name cs)"
proof (induction entries arbitrary: m)
  case Nil
  then show ?case by simp
next
  case (Cons entry rest)
  from Cons.prems obtain c m1 where c: "make_component env entry = Inr c"
    and m1: "append_model m c = Inr m1"
    and r: "append_components env m1 rest = Inr m'"
    by (auto simp: ebind_eq_Inr)
  from Cons.IH[OF r] obtain cs where cs: "components m' = components m1 @ cs"
    and nm: "emap (\<lambda>e. subscript e ''name'') rest = Inr (map name cs)"
    by blast
  have "components m' = components m @ (c # cs)"
    using cs append_model_Inr[OF m1] by simp
  moreover have "emap (\<lambda>e. subscript e ''name'') (entry # rest) = Inr (map name (c # cs))"
    using nm make_component_name[OF c] by simp
  ultimately show ?case by blast
qed

lemma example_base_model:
  "base_model example_env example_model_dict
     = Inr \<lparr>model_class = EELSModelC,
            spectrum = example_eels\<lparr>axes_store :=
              [\<lparr>size_axis = 10, index_in_array = 0, name_axis = StrV ''x'',
                scale = FloatV 2, offset = FloatV 5, units = StrV ''nm''\<rparr>,
               \<lparr>size_axis = 100, index_in_array = 1, name_axis = StrV ''Energy'',
                scale = FloatV 0.1, offset = FloatV (-2), units = StrV ''eV''\<rparr>]\<rparr>,
            components = []\<rparr>"
  by (simp add: base_model_def build_spectrum_def build_model_def restore_calibration_def
      example_model_dict_def dict_getitem_def example_env_def EELSModel_def pop_def
      example_eels_def example_axes_def example_nav_entry_def example_sig_entry_def
      set_axis_calibration_def)

lemma example_create_model_from_dict:
  "map_sum id (\<lambda>m. (model_class m, components m))
     (create_model_from_dict example_env example_model_dict)
     = Inr (EELSModelC,
            [\<lparr>name = StrV ''bg'', active = True, id_name = ''PowerLaw''\<rparr>,
             \<lparr>name = StrV ''C_K'', active = True, id_name = ''EELSCLEdge''\<rparr>,
             \<lparr>name = StrV ''peak'', active = True, id_name = ''Gaussian''\<rparr>])"
  by (simp add: create_model_from_dict_def example_base_model)
     (simp add: component_entries_def
      example_model_dict_def dict_getitem_def example_component_entries_def
      make_component_def getattr_components_def example_env_def new_component_def
      append_model_def str_add_def del: set_map set_filter)

text \<open>
  Claim C5.  When \<open>create_model_from_dict\<close> returns a model, its components are those of
  the model built before the loop followed by one new component per entry of
  \<open>model_dict['components']\<close>, in the order of the entries, and the name of the new
  component at position \<open>i\<close> is the \<open>name\<close> field of entry \<open>i\<close>.
\<close>

theorem create_model_from_dict_components_in_order:
  assumes "create_model_from_dict env model_dict = Inr m"
  shows "\<exists>m0 entries cs.
           base_model env model_dict = Inr m0
         \<and> component_entries model_dict = Inr entries
         \<and> components m = components m0 @ cs
         \<and> length cs = length entries
         \<and> (\<forall>i < length entries. subscript (entries ! i) ''name'' = Inr (name (cs ! i)))"
proof -
  from assms obtain m0 entries where m0: "base_model env model_dict = Inr m0"
    and en: "component_entries model_dict = Inr entries"
    and ap: "append_components env m0 entries = Inr m"
    unfolding create_model_from_dict_def by (auto simp: ebind_eq_Inr)
  from append_components_Inr[OF ap] obtain cs where cs: "components m = components m0 @ cs"
    and nm: "emap (\<lambda>e. subscript e ''name'') entries = Inr (map name cs)"
    by blast
  from emap_Inr[OF nm] have "length cs = length entries"
    and "\<forall>i < length entries. subscript (entries ! i) ''name'' = Inr (name (cs ! i))"
    by simp_all
  with m0 en cs show ?thesis by blast
qed

theorem create_model_from_dict_components_in_order_witness:
  "\<exists>m. create_model_from_dict example_env example_model_dict = Inr m
     \<and> map name (components m) = [StrV ''bg'', StrV ''C_K'', StrV ''peak'']
     \<and> component_entries example_model_dict = Inr example_component_entries
     \<and> emap (\<lambda>e. subscript e ''name'') example_component_entries
         = Inr [StrV ''bg'', StrV ''C_K'', StrV ''peak'']"
proof -
  from example_create_model_from_dict obtain m where
    m: "create_model_from_dict example_env example_model_dict = Inr m"
    and cm: "components m = [\<lparr>name = StrV ''bg'', active = True, id_name = ''PowerLaw''\<rparr>,
             \<lparr>name = StrV ''C_K'', active = True, id_name = ''EELSCLEdge''\<rparr>,
             \<lparr>name = StrV ''peak'', active = True, id_name = ''Gaussian''\<rparr>]"
    by (cases "create_model_from_dict example_env example_model_dict") auto
  from create_model_from_dict_components_in_order[OF m] obtain m0 entries cs where
    b: "base_model example_env example_model_dict = Inr m0"
    and e: "component_entries example_model_dict = Inr entries"
    and c: "components m = components m0 @ cs" and l: "length cs = length entries"
    by blast
  have "components m0 = []" using b by (auto simp: example_base_model)
  then have "cs = components m" using c by simp
  then have "length entries = 3" using l cm by simp
  with e have "component_entries example_model_dict = Inr entries \<and> length entries = 3"
    by simp
  moreover have "component_entries example_model_dict = Inr example_component_entries"
    by (simp add: component_entries_def example_model_dict_def dict_getitem_def)
  moreover have "emap (\<lambda>e. subscript e ''name'') example_component_entries
         = Inr [StrV ''bg'', StrV ''C_K'', StrV ''peak'']"
    by (simp add: example_component_entries_def dict_getitem_def)
  ultimately show ?thesis using m cm by simp
qed

section \<open>Proofs: the netCDF reader\<close>

lemma getitem_error: "getitem m k = Inl e \<Longrightarrow> e = KeyError"
  by (auto simp: getitem_def split: option.splits)

lemma emap_getitem_error: "emap (getitem m) ks = Inl e \<Longrightarrow> e = KeyError"
proof (induction ks)
  case Nil
  then show ?case by simp
next
  case (Cons k ks)
  then show ?case
    by (cases "getitem m k"; cases "emap (getitem m) ks") (auto dest: getitem_error)
qed

lemma emap_getitem_missing:
  "k \<in> set ks \<Longrightarrow> m k = None \<Longrightarrow> emap (getitem m) ks = Inl KeyError"
proof (induction ks)
  case Nil
  then show ?case by simp
next
  case (Cons k' ks)
  show ?case
  proof (cases "getitem m k'")
    case (Inl e)
    then show ?thesis using getitem_error[OF Inl] by simp
  next
    case (Inr v)
    then have "k \<noteq> k'" using Cons.prems by (auto simp: getitem_def)
    then have "emap (getitem m) ks = Inl KeyError" using Cons by simp
    then show ?thesis using Inr by simp
  qed
qed

lemma lookup_or_default_missing:
  "k \<in> set ks \<Longrightarrow> m k = None \<Longrightarrow> lookup_or_default m ks fallback = Inr fallback"
  by (simp add: lookup_or_default_def emap_getitem_missing)

lemma length_shape_transpose_nd [simp]: "length (shape (transpose_nd a)) = length (shape a)"
  by (simp add: transpose_nd_def)

lemma reader_Inr:
  assumes "nc_hyperspy_reader_0dot1 ncfile filename = Inr d"
  obtains names scales origins uns where
    "lookup_or_default (calibration (original_parameters d))
         (slice_from (3 - int (length (shape (data d))))
            (scaleskeys (record_by_of (op_record_by (original_parameters d)))))
         (slice_from (3 - int (length (shape (data d)))) [IntV 1, IntV 1, IntV 1]) = Inr scales"
    "lookup_or_default (calibration (original_parameters d))
         (slice_from (3 - int (length (shape (data d))))
            (originskeys (record_by_of (op_record_by (original_parameters d)))))
         (slice_from (3 - int (length (shape (data d)))) [IntV 0, IntV 0, IntV 0]) = Inr origins"
    "lookup_or_default (calibration (original_parameters d))
         (slice_from (3 - int (length (shape (data d))))
            (unitskeys (record_by_of (op_record_by (original_parameters d)))))
         [StrV [], StrV [], StrV []] = Inr uns"
    "emap (axis_entry (data d) names scales origins uns) [0..<length (shape (data d))]
       = Inr (axes d)"
  using assms
  unfolding nc_hyperspy_reader_0dot1_def Let_def
  by (auto simp: ebind_eq_Inr getitem_def split: option.splits)

lemma axis_entry_Inr:
  assumes "axis_entry a names scales origins uns i = Inr e"
  shows "\<exists>nm. i < length (shape a) \<and> i < length scales \<and> i < length origins \<and> i < length uns
     \<and> e = [(''size'', IntV (int (shape a ! i))),
            (''index_in_array'', IntV (int i)),
            (''name'', StrV nm),
            (''scale'', scales ! i),
            (''offset'', origins ! i),
            (''units'', uns ! i)]"
  using assms unfolding axis_entry_def
  by (auto simp: ebind_eq_Inr list_getitem_def split: if_splits)

lemma example_reader:
  "\<exists>d. nc_hyperspy_reader_0dot1 example_ncfile ''/tmp/a.nc'' = Inr d \<and> shape (data d) = [7, 5]
     \<and> calibration (original_parameters d) ''xscale'' = None
     \<and> calibration (original_parameters d) ''xorigin'' = None
     \<and> calibration (original_parameters d) ''xunits'' = None
     \<and> calibration (original_parameters d) ''energyscale'' = Some (FloatV 0.5)
     \<and> op_record_by (original_parameters d) = StrV ''Spectrum''
     \<and> map_of (axes d ! 1) ''name'' = Some (StrV ''Energy'') \<and> length (axes d) = 2"
  by (simp add: nc_hyperspy_reader_0dot1_def example_ncfile_def getitem_def attrib2netcdf_def
      acquisition2netcdf_def treatments2netcdf_def list_getitem_def record_by_of_def
      slice_from_def scaleskeys_def originskeys_def unitskeys_def names_of_def
      lookup_or_default_def axis_entry_def transpose_nd_def Let_def upt_rec)

lemma set_slice_from: "set (slice_from s xs) \<subseteq> set xs"
  by (simp add: slice_from_def Let_def set_drop_subset)

lemma nth_slice_from_const:
  assumes "i < length (slice_from s xs)" "set xs \<subseteq> {v}"
  shows "slice_from s xs ! i = v"
proof -
  have "slice_from s xs ! i \<in> set (slice_from s xs)" using assms(1) by (rule nth_mem)
  then show ?thesis using set_slice_from[of s xs] assms(2) by auto
qed

text \<open>
  Claim C2.  When the reader accepts a file, the \<open>axes\<close> of the dictionary it returns have
  one entry per dimension of the transposed data array; the entry at position \<open>i\<close> has
  exactly the keys \<open>size\<close>, \<open>index_in_array\<close>, \<open>name\<close>, \<open>scale\<close>, \<open>offset\<close>, \<open>units\<close>, its
  \<open>size\<close> is the extent of the data along dimension \<open>i\<close> and its \<open>index_in_array\<close> is \<open>i\<close>.
\<close>

theorem netcdf_axes_per_dimension:
  assumes "nc_hyperspy_reader_0dot1 ncfile filename = Inr d"
  shows "length (axes d) = length (shape (data d))
       \<and> (\<forall>i < length (axes d).
            map fst (axes d ! i)
              = [''size'', ''index_in_array'', ''name'', ''scale'', ''offset'', ''units'']
          \<and> map_of (axes d ! i) ''size'' = Some (IntV (int (shape (data d) ! i)))
          \<and> map_of (axes d ! i) ''index_in_array'' = Some (IntV (int i)))"
proof -
  from assms obtain names scales origins uns where
    em: "emap (axis_entry (data d) names scales origins uns) [0..<length (shape (data d))]
           = Inr (axes d)"
    by (rule reader_Inr)
  from emap_Inr[OF em] have len: "length (axes d) = length (shape (data d))"
    and each: "\<forall>i < length (shape (data d)).
        axis_entry (data d) names scales origins uns i = Inr (axes d ! i)"
    by simp_all
  have "map fst (axes d ! i)
              = [''size'', ''index_in_array'', ''name'', ''scale'', ''offset'', ''units'']
          \<and> map_of (axes d ! i) ''size'' = Some (IntV (int (shape (data d) ! i)))
          \<and> map_of (axes d ! i) ''index_in_array'' = Some (IntV (int i))"
    if "i < length (axes d)" for i
  proof -
    from that len each
    have "axis_entry (data d) names scales origins uns i = Inr (axes d ! i)"
      by simp
    from axis_entry_Inr[OF this] show ?thesis by auto
  qed
  with len show ?thesis by blast
qed

theorem netcdf_axes_per_dimension_witness:
  "\<exists>d. nc_hyperspy_reader_0dot1 example_ncfile ''/tmp/a.nc'' = Inr d
     \<and> length (axes d) = 2
     \<and> map_of (axes d ! 0) ''size'' = Some (IntV 7)
     \<and> map_of (axes d ! 1) ''size'' = Some (IntV 5)
     \<and> map_of (axes d ! 1) ''index_in_array'' = Some (IntV 1)"
proof -
  from example_reader obtain d where
    d: "nc_hyperspy_reader_0dot1 example_ncfile ''/tmp/a.nc'' = Inr d" "shape (data d) = [7, 5]"
    by blast
  from netcdf_axes_per_dimension[OF d(1)] d show ?thesis by simp
qed

text \<open>
  Claim C10.  The fallback for missing calibration is taken for the whole group of keys:
  when the reader accepts a file and one of the scale keys it looks up is absent from the
  calibration dictionary, the scale of every axis is \<open>1\<close>; likewise every offset is \<open>0\<close>
  when an origin key is absent and every unit is the empty string when a units key is
  absent, also for the axes whose own key is present.
\<close>

theorem netcdf_fallback_is_groupwise:
  assumes "nc_hyperspy_reader_0dot1 ncfile filename = Inr d"
    and "i < length (axes d)"
  shows "((\<exists>key \<in> set (slice_from (3 - int (length (shape (data d))))
                      (scaleskeys (record_by_of (op_record_by (original_parameters d))))).
             calibration (original_parameters d) key = None)
          \<longrightarrow> map_of (axes d ! i) ''scale'' = Some (IntV 1))
       \<and> ((\<exists>key \<in> set (slice_from (3 - int (length (shape (data d))))
                      (originskeys (record_by_of (op_record_by (original_parameters d))))).
             calibration (original_parameters d) key = None)
          \<longrightarrow> map_of (axes d ! i) ''offset'' = Some (IntV 0))
       \<and> ((\<exists>key \<in> set (slice_from (3 - int (length (shape (data d))))
                      (unitskeys (record_by_of (op_record_by (original_parameters d))))).
             calibration (original_parameters d) key = None)
          \<longrightarrow> map_of (axes d ! i) ''units'' = Some (StrV []))"
proof -
  from assms(1) obtain names scales origins uns where
    sc: "lookup_or_default (calibration (original_parameters d))
         (slice_from (3 - int (length (shape (data d))))
            (scaleskeys (record_by_of (op_record_by (original_parameters d)))))
         (slice_from (3 - int (length (shape (data d)))) [IntV 1, IntV 1, IntV 1]) = Inr scales"
    and orig: "lookup_or_default (calibration (original_parameters d))
         (slice_from (3 - int (length (shape (data d))))
            (originskeys (record_by_of (op_record_by (original_parameters d)))))
         (slice_from (3 - int (length (shape (data d)))) [IntV 0, IntV 0, IntV 0]) = Inr origins"
    and un: "lookup_or_default (calibration (original_parameters d))
         (slice_from (3 - int (length (shape (data d))))
            (unitskeys (record_by_of (op_record_by (original_parameters d)))))
         [StrV [], StrV [], StrV []] = Inr uns"
    and em: "emap (axis_entry (data d) names scales origins uns) [0..<length (shape (data d))]
       = Inr (axes d)"
    by (rule reader_Inr)
  from emap_Inr[OF em] assms(2)
  have "axis_entry (data d) names scales origins uns i = Inr (axes d ! i)" by simp
  from axis_entry_Inr[OF this] obtain nm where
    i: "i < length scales" "i < length origins" "i < length uns"
    and e: "axes d ! i = [(''size'', IntV (int (shape (data d) ! i))),
            (''index_in_array'', IntV (int i)),
            (''name'', StrV nm),
            (''scale'', scales ! i),
            (''offset'', origins ! i),
            (''units'', uns ! i)]"
    by blast
  have s: "map_of (axes d ! i) ''scale'' = Some (IntV 1)"
    if "key \<in> set (slice_from (3 - int (length (shape (data d))))
                      (scaleskeys (record_by_of (op_record_by (original_parameters d)))))"
      and "calibration (original_parameters d) key = None" for key
  proof -
    have "lookup_or_default (calibration (original_parameters d))
         (slice_from (3 - int (length (shape (data d))))
            (scaleskeys (record_by_of (op_record_by (original_parameters d)))))
         (slice_from (3 - int (length (shape (data d)))) [IntV 1, IntV 1, IntV 1])
       = Inr (slice_from (3 - int (length (shape (data d)))) [IntV 1, IntV 1, IntV 1])"
      using that by (rule lookup_or_default_missing)
    with sc
    have "scales = slice_from (3 - int (length (shape (data d)))) [IntV 1, IntV 1, IntV 1]"
      by simp
    with i(1) have "scales ! i = IntV 1" by (simp add: nth_slice_from_const)
    then show ?thesis using e by simp
  qed
  have o: "map_of (axes d ! i) ''offset'' = Some (IntV 0)"
    if "key \<in> set (slice_from (3 - int (length (shape (data d))))
                      (originskeys (record_by_of (op_record_by (original_parameters d)))))"
      and "calibration (original_parameters d) key = None" for key
  proof -
    have "lookup_or_default (calibration (original_parameters d))
         (slice_from (3 - int (length (shape (data d))))
            (originskeys (record_by_of (op_record_by (original_parameters d)))))
         (slice_from (3 - int (length (shape (data d)))) [IntV 0, IntV 0, IntV 0])
       = Inr (slice_from (3 - int (length (shape (data d)))) [IntV 0, IntV 0, IntV 0])"
      using that by (rule lookup_or_default_missing)
    with orig
    have "origins = slice_from (3 - int (length (shape (data d)))) [IntV 0, IntV 0, IntV 0]"
      by simp
    with i(2) have "origins ! i = IntV 0" by (simp add: nth_slice_from_const)
    then show ?thesis using e by simp
  qed
  have u: "map_of (axes d ! i) ''units'' = Some (StrV [])"
    if "key \<in> set (slice_from (3 - int (length (shape (data d))))
                      (unitskeys (record_by_of (op_record_by (original_parameters d)))))"
      and "calibration (original_parameters d) key = None" for key
  proof -
    have "lookup_or_default (calibration (original_parameters d))
         (slice_from (3 - int (length (shape (data d))))
            (unitskeys (record_by_of (op_record_by (original_parameters d)))))
         [StrV [], StrV [], StrV []]
       = Inr [StrV [], StrV [], StrV []]"
      using that by (rule lookup_or_default_missing)
    with un
    have "uns = [StrV [], StrV [], StrV []]" by simp
    with i(3) have "uns ! i \<in> {StrV []}" by (metis nth_mem set_ConsD empty_iff empty_set insertI1)
    then show ?thesis using e by simp
  qed
  from s o u show ?thesis by blast
qed

theorem netcdf_fallback_is_groupwise_witness:
  "\<exists>d. nc_hyperspy_reader_0dot1 example_ncfile ''/tmp/a.nc'' = Inr d
     \<and> calibration (original_parameters d) ''energyscale'' = Some (FloatV 0.5)
     \<and> calibration (original_parameters d) ''xscale'' = None
     \<and> map_of (axes d ! 1) ''name'' = Some (StrV ''Energy'')
     \<and> map_of (axes d ! 1) ''scale'' = Some (IntV 1)
     \<and> map_of (axes d ! 1) ''offset'' = Some (IntV 0)
     \<and> map_of (axes d ! 1) ''units'' = Some (StrV [])"
proof -
  from example_reader obtain d where
    d: "nc_hyperspy_reader_0dot1 example_ncfile ''/tmp/a.nc'' = Inr d" "shape (data d) = [7, 5]"
      "calibration (original_parameters d) ''xscale'' = None"
      "calibration (original_parameters d) ''xorigin'' = None"
      "calibration (original_parameters d) ''xunits'' = None"
      "calibration (original_parameters d) ''energyscale'' = Some (FloatV 0.5)"
      "op_record_by (original_parameters d) = StrV ''Spectrum''"
      "map_of (axes d ! 1) ''name'' = Some (StrV ''Energy'')" "length (axes d) = 2"
    by blast
  have i: "1 < length (axes d)" using d by simp
  from netcdf_fallback_is_groupwise[OF d(1) i] d show ?thesis
    by (simp add: slice_from_def record_by_of_def scaleskeys_def originskeys_def unitskeys_def)
qed

section \<open>Proofs: calibrated axes\<close>





lemma fold_min_le: "fold min xs (a::real) \<le> a" "x \<in> set xs \<Longrightarrow> fold min xs a \<le> x"
proof -
  have eq: "fold min xs a = Min (set (a # xs))" by (simp only: Min.set_eq_fold)
  show "fold min xs a \<le> a" unfolding eq by (rule Min_le) simp_all
  show "fold min xs a \<le> x" if "x \<in> set xs" unfolding eq using that by (intro Min_le) simp_all
qed

lemma fold_max_ge: "(a::real) \<le> fold max xs a" "x \<in> set xs \<Longrightarrow> x \<le> fold max xs a"
proof -
  have eq: "fold max xs a = Max (set (a # xs))" by (simp only: Max.set_eq_fold)
  show "a \<le> fold max xs a" unfolding eq by (rule Max_ge) simp_all
  show "x \<le> fold max xs a" if "x \<in> set xs" unfolding eq using that by (intro Max_ge) simp_all
qed

lemma fold_min_const: "\<forall>x \<in> set xs. (a::real) \<le> x \<Longrightarrow> fold min xs a = a"
  by (induction xs) (simp_all add: min_absorb2)

lemma fold_max_le: "(a::real) \<le> b \<Longrightarrow> \<forall>x \<in> set xs. x \<le> b \<Longrightarrow> fold max xs a \<le> b"
  by (induction xs arbitrary: a) simp_all

lemma last_value_in_axis_values:
  assumes "1 \<le> size_axis ax"
  shows "offset ax + (real (size_axis ax) - 1) * scale ax \<in> set (axis_values ax)"
proof -
  have "size_axis ax - 1 \<in> set [0..<size_axis ax]" using assms by simp
  then have "offset ax + real (size_axis ax - 1) * scale ax \<in> set (axis_values ax)"
    unfolding axis_values_def by (simp only: set_map image_eqI)
  moreover have "real (size_axis ax - 1) = real (size_axis ax) - 1" using assms by simp
  ultimately show ?thesis by simp
qed

lemma axis_min_le:
  assumes "1 \<le> size_axis ax"
  shows "axis_min ax \<le> offset ax" "axis_min ax \<le> offset ax + (real (size_axis ax) - 1) * scale ax"
  using fold_min_le(1)[of "axis_values ax" "offset ax"]
    fold_min_le(2)[OF last_value_in_axis_values[OF assms], of "offset ax"]
  by (simp_all add: axis_min_def)

lemma axis_max_ge:
  assumes "1 \<le> size_axis ax"
  shows "offset ax \<le> axis_max ax" "offset ax + (real (size_axis ax) - 1) * scale ax \<le> axis_max ax"
  using fold_max_ge(1)[of "offset ax" "axis_values ax"]
    fold_max_ge(2)[OF last_value_in_axis_values[OF assms], of "offset ax"]
  by (simp_all add: axis_max_def)

lemma clamp_low: "1 \<le> n \<Longrightarrow> q < 0 \<Longrightarrow> max 0 (min (int n - 1) (round (q::real))) = 0"
proof -
  assume n: "1 \<le> n" and q: "q < 0"
  have "round q \<le> round (0::real)" using q by (intro round_mono) simp
  then have "round q \<le> 0" by simp
  then show ?thesis by simp
qed

lemma clamp_high:
  "1 \<le> n \<Longrightarrow> real n - 1 < q \<Longrightarrow> max 0 (min (int n - 1) (round (q::real))) = int n - 1"
proof -
  assume n: "1 \<le> n" and q: "real n - 1 < q"
  have "real_of_int (int n - 1) \<le> q" using q n by simp
  then have "round (real_of_int (int n - 1)) \<le> round q" by (rule round_mono)
  then have "int n - 1 \<le> round q" by (simp only: round_of_int)
  then show ?thesis using n by simp
qed

lemma test_axis_bounds: "axis_min test_axis = -2" "axis_max test_axis < 50"
proof -
  have "\<forall>x \<in> set (axis_values test_axis). offset test_axis \<le> x"
    by (simp add: axis_values_def test_axis_def)
  then show "axis_min test_axis = -2"
    unfolding axis_min_def by (simp add: fold_min_const) (simp add: test_axis_def)
  have "\<forall>x \<in> set (axis_values test_axis). x \<le> 8"
    by (auto simp: axis_values_def test_axis_def)
  then have "axis_max test_axis \<le> 8"
    unfolding axis_max_def by (intro fold_max_le) (simp_all add: test_axis_def)
  then show "axis_max test_axis < 50" by simp
qed

lemma descending_axis_bounds: "axis_min descending_axis = -2" "axis_max descending_axis = 0"
  by (simp_all add: axis_min_def axis_max_def axis_values_def descending_axis_def upt_rec)

text \<open>
  Claim C4, as amended.  For every axis of at least one point whose scale is not zero
  and every real \<open>v\<close>, \<open>index_at\<close> returns a valid index.  When the scale is positive, a value
  below the axis's minimum gives index \<open>0\<close> and a value above its maximum gives index
  \<open>size - 1\<close>; when the scale is negative the two ends are exchanged: a value below the
  minimum gives \<open>size - 1\<close> and a value above the maximum gives \<open>0\<close>.
\<close>

theorem index_at_clamps:
  assumes "1 \<le> size_axis ax" and "scale ax \<noteq> 0"
  shows "0 \<le> index_at ax v \<and> index_at ax v < int (size_axis ax)
       \<and> (0 < scale ax \<longrightarrow>
            (v < axis_min ax \<longrightarrow> index_at ax v = 0)
          \<and> (axis_max ax < v \<longrightarrow> index_at ax v = int (size_axis ax) - 1))
       \<and> (scale ax < 0 \<longrightarrow>
            (v < axis_min ax \<longrightarrow> index_at ax v = int (size_axis ax) - 1)
          \<and> (axis_max ax < v \<longrightarrow> index_at ax v = 0))"
proof -
  let ?n = "size_axis ax" and ?q = "(v - offset ax) / scale ax"
  have range: "0 \<le> index_at ax v \<and> index_at ax v < int ?n"
    using assms(1) by (simp add: index_at_def)
  have pos_low: "index_at ax v = 0" if "0 < scale ax" "v < axis_min ax"
  proof -
    have "v < offset ax" using that(2) axis_min_le(1)[OF assms(1)] by simp
    then have "?q < 0" using that(1) by (simp add: divide_neg_pos)
    then show ?thesis using assms(1) by (simp add: index_at_def clamp_low)
  qed
  have pos_high: "index_at ax v = int ?n - 1" if "0 < scale ax" "axis_max ax < v"
  proof -
    have "offset ax + (real ?n - 1) * scale ax < v"
      using that(2) axis_max_ge(2)[OF assms(1)] by simp
    then have "(real ?n - 1) * scale ax < v - offset ax" by simp
    then have "real ?n - 1 < ?q" using that(1) by (simp add: pos_less_divide_eq)
    then show ?thesis using assms(1) by (simp add: index_at_def clamp_high)
  qed
  have neg_low: "index_at ax v = int ?n - 1" if "scale ax < 0" "v < axis_min ax"
  proof -
    have "v < offset ax + (real ?n - 1) * scale ax"
      using that(2) axis_min_le(2)[OF assms(1)] by simp
    then have "v - offset ax < (real ?n - 1) * scale ax" by simp
    then have "real ?n - 1 < ?q" using that(1) by (simp add: neg_less_divide_eq)
    then show ?thesis using assms(1) by (simp add: index_at_def clamp_high)
  qed
  have neg_high: "index_at ax v = 0" if "scale ax < 0" "axis_max ax < v"
  proof -
    have "offset ax < v" using that(2) axis_max_ge(1)[OF assms(1)] by simp
    then have "?q < 0" using that(1) by (simp add: divide_pos_neg)
    then show ?thesis using assms(1) by (simp add: index_at_def clamp_low)
  qed
  from range pos_low pos_high neg_low neg_high show ?thesis by blast
qed

theorem index_at_clamps_witness:
  "1 \<le> size_axis test_axis \<and> 0 < scale test_axis
   \<and> -3 < axis_min test_axis \<and> index_at test_axis (-3) = 0
   \<and> axis_max test_axis < 50 \<and> index_at test_axis 50 = 99
   \<and> 1 \<le> size_axis descending_axis \<and> scale descending_axis < 0
   \<and> -5 < axis_min descending_axis \<and> index_at descending_axis (-5) = 2
   \<and> axis_max descending_axis < 4 \<and> index_at descending_axis 4 = 0"
proof -
  have t: "1 \<le> size_axis test_axis" "scale test_axis \<noteq> 0" "0 < scale test_axis"
    "int (size_axis test_axis) - 1 = 99"
    by (simp_all add: test_axis_def)
  have d: "1 \<le> size_axis descending_axis" "scale descending_axis \<noteq> 0"
    "scale descending_axis < 0" "int (size_axis descending_axis) - 1 = 2"
    by (simp_all add: descending_axis_def)
  have b: "-3 < axis_min test_axis" "axis_max test_axis < 50"
    "-5 < axis_min descending_axis" "axis_max descending_axis < 4"
    by (simp_all add: test_axis_bounds descending_axis_bounds)
  from index_at_clamps [OF t(1,2), of "-3"] t(3,4) b(1)
  have 1: "index_at test_axis (-3) = 0" by simp
  from index_at_clamps [OF t(1,2), of 50] t(3,4) b(2)
  have 2: "index_at test_axis 50 = 99" by simp
  from index_at_clamps [OF d(1,2), of "-5"] d(3,4) b(3)
  have 3: "index_at descending_axis (-5) = 2" by simp
  from index_at_clamps [OF d(1,2), of 4] d(3,4) b(4)
  have 4: "index_at descending_axis 4 = 0" by simp
  from t d b 1 2 3 4 show ?thesis by simp
qed

text \<open>
  Claim C4 as stated fails on an axis whose values descend: \<open>-5\<close> is below the minimum
  \<open>-2\<close> of \<open>descending_axis\<close>, and \<open>index_at\<close> returns the last index \<open>2\<close>, not \<open>0\<close>.
\<close>

theorem index_at_below_minimum_descending_axis:
  "(-5) < axis_min descending_axis \<and> index_at descending_axis (-5) \<noteq> 0"
  by (simp add: descending_axis_bounds) (simp add: descending_axis_def index_at_def)

section \<open>Proofs: multi-position fitting\<close>

lemma length_multifit_from:
  "length (multifit_from optimizer chi reset defaults g ds) = length ds"
  by (induction ds arbitrary: g) (simp_all add: Let_def)

lemma multifit_from_Suc:
  "Suc i < length ds \<Longrightarrow>
   multifit_from optimizer chi reset defaults g ds ! Suc i
     = fit_coordinate optimizer chi
         (if reset then defaults
          else parameter_values (multifit_from optimizer chi reset defaults g ds ! i))
         (ds ! Suc i)"
proof (induction ds arbitrary: g i)
  case Nil
  then show ?case by simp
next
  case (Cons d ds)
  show ?case
  proof (cases i)
    case 0
    then obtain d' ds' where "ds = d' # ds'" using Cons.prems by (cases ds) simp_all
    then show ?thesis using 0 by (simp add: Let_def)
  next
    case (Suc j)
    then have "Suc j < length ds" using Cons.prems by simp
    from Cons.IH[OF this] show ?thesis using Suc by (simp add: Let_def)
  qed
qed

lemma multifit_from_0:
  "ds \<noteq> [] \<Longrightarrow> multifit_from optimizer chi reset defaults g ds ! 0
     = fit_coordinate optimizer chi g (ds ! 0)"
  by (cases ds) (simp_all add: Let_def)

lemma example_multifit:
  "multifit example_optimizer example_chi False [0] [1, 0, 3]
     = [\<lparr>parameter_values = [1], converged = True, chisq = 0\<rparr>,
        \<lparr>parameter_values = [1], converged = False, chisq = 1\<rparr>,
        \<lparr>parameter_values = [3], converged = True, chisq = 0\<rparr>]"
  by (simp add: multifit_def fit_coordinate_def example_optimizer_def example_chi_def Let_def)

text \<open>
  Claim C7.  A \<open>multifit\<close> run returns one record for every coordinate, whatever the
  outcomes.  The record of each coordinate is the fit of that coordinate, started from
  the defaults at the first coordinate or after a reset and otherwise from the values
  retained in the record before it, converged or not; and a fit is recorded as
  \<open>Converged\<close> when the optimizer reports convergence and as \<open>Failed\<close> for every other
  outcome, so that a failure is a value of the record and the run goes on.
\<close>

theorem multifit_continues_after_failure:
  "length (multifit optimizer chi reset defaults ds) = length ds
   \<and> (\<forall>i < length ds.
        multifit optimizer chi reset defaults ds ! i
          = fit_coordinate optimizer chi
              (if i = 0 \<or> reset then defaults
               else parameter_values (multifit optimizer chi reset defaults ds ! (i - 1)))
              (ds ! i))
   \<and> (\<forall>g d. status_of (fit_coordinate optimizer chi g d)
               = (case optimizer g d of Converged_within_tolerance p \<Rightarrow> Converged | _ \<Rightarrow> Failed))"
proof (intro conjI allI impI)
  show "length (multifit optimizer chi reset defaults ds) = length ds"
    by (simp add: multifit_def length_multifit_from)
next
  fix i assume i: "i < length ds"
  show "multifit optimizer chi reset defaults ds ! i
          = fit_coordinate optimizer chi
              (if i = 0 \<or> reset then defaults
               else parameter_values (multifit optimizer chi reset defaults ds ! (i - 1)))
              (ds ! i)"
  proof (cases i)
    case 0
    then show ?thesis using i multifit_from_0[of ds] by (auto simp: multifit_def)
  next
    case (Suc j)
    then show ?thesis using i multifit_from_Suc[of j ds] by (simp add: multifit_def)
  qed
next
  fix g d
  show "status_of (fit_coordinate optimizer chi g d)
               = (case optimizer g d of Converged_within_tolerance p \<Rightarrow> Converged | _ \<Rightarrow> Failed)"
    by (simp add: status_of_def fit_coordinate_def split: optimizer_outcome.splits)
qed

theorem multifit_continues_after_failure_witness:
  "length (multifit example_optimizer example_chi False [0] [1, 0, 3]) = 3
   \<and> map status_of (multifit example_optimizer example_chi False [0] [1, 0, 3])
     = [Converged, Failed, Converged]
   \<and> multifit example_optimizer example_chi False [0] [1, 0, 3] ! 2
     = fit_coordinate example_optimizer example_chi [1] 3"
proof -
  note inst = multifit_continues_after_failure
    [of example_optimizer example_chi False "[0]" "[1, 0, 3]"]
  from inst have len: "length (multifit example_optimizer example_chi False [0] [1, 0, 3]) = 3"
    by simp
  from inst have "\<forall>i < length [1, 0, 3::real].
        multifit example_optimizer example_chi False [0] [1, 0, 3] ! i
          = fit_coordinate example_optimizer example_chi
              (if i = 0 \<or> False then [0]
               else parameter_values
                      (multifit example_optimizer example_chi False [0] [1, 0, 3] ! (i - 1)))
              ([1, 0, 3] ! i)"
    by (rule conjunct1[OF conjunct2])
  then have "2 < length [1, 0, 3::real] \<longrightarrow>
        multifit example_optimizer example_chi False [0] [1, 0, 3] ! 2
          = fit_coordinate example_optimizer example_chi
              (if (2::nat) = 0 \<or> False then [0]
               else parameter_values
                      (multifit example_optimizer example_chi False [0] [1, 0, 3] ! (2 - 1)))
              ([1, 0, 3] ! 2)"
    by (rule spec)
  then have step: "multifit example_optimizer example_chi False [0] [1, 0, 3] ! 2
     = fit_coordinate example_optimizer example_chi [1] 3"
    by (simp add: example_multifit)
  have st: "map status_of (multifit example_optimizer example_chi False [0] [1, 0, 3])
     = [Converged, Failed, Converged]"
    by (simp add: example_multifit status_of_def)
  from len st step show ?thesis by simp
qed

section \<open>Proofs: \<open>electron_range\<close>\<close>

text \<open>
  Claim C8.  With an explicit \<open>rho\<close> the call of \<open>electron_range\<close> ends in the error of an
  unbound local variable, whatever the other arguments are; so a call that returns a
  value was made with \<open>rho = None\<close>.
\<close>

theorem electron_range_rho_unbound:
  "electron_range db element beam_energy (Some r) tilt = Inl UnboundLocalError
   \<and> (\<forall>y. electron_range db element beam_energy rho tilt = Inr y \<longrightarrow> rho = None)"
  by (cases rho) (simp_all add: electron_range_def electron_range_return_def read_local_def)

theorem electron_range_rho_unbound_witness:
  "electron_range example_db ''Al'' 10 (Some 2.7) 0 = Inl UnboundLocalError
   \<and> (\<exists>y. electron_range example_db ''Al'' 10 None 0 = Inr y)"
  using electron_range_rho_unbound [of example_db "''Al''" 10 "2.7" 0 None]
  by (simp add: electron_range_def electron_range_return_def read_local_def db_getitem_def getitem_def example_db_def)

section \<open>Proofs: \<open>atomic_to_weight\<close> and \<open>weigth_to_atomic\<close>\<close>













end
